theory Spec2Isabelle
  imports Complex_Main
begin

section \<open>The spinning wheel simulation (spin\_wheel.py)\<close>

text \<open>
  The simulation keeps a wheel (angle, angular velocity), a ball (position, velocity,
  spin) and the geometry of the window. Python's \<open>float\<close> is modelled by \<open>real\<close>:
  every arithmetic operation is the exact one, so the theorems below are statements of
  the algorithm in exact arithmetic, and say nothing about rounding, overflow or NaN.
  Python's \<open>int\<close> is \<open>int\<close>. A method that mutates \<open>self\<close> is a function from the
  state to the new state; a method that draws from \<open>random\<close> takes the number drawn as
  an argument.
\<close>

subsection \<open>Data model\<close>

type_synonym color = "int \<times> int \<times> int"

record config =
  window_size_px :: int
  background_color :: color
  rim_inner_color :: color
  rim_outer_color :: color
  spoke_color_a :: color
  spoke_color_b :: color
  pixels_per_meter :: real
  gravity_m_s2 :: real
  air_drag_per_second :: real
  wall_restitution :: real
  mu_static :: real
  mu_kinetic :: real
  inward_radial_accel_m_s2 :: real
  wheel_angular_friction_per_second :: real
  ball_angular_friction_per_second :: real
  ball_spin_gain :: real
  rim_thickness_px :: real
  ball_radius_px :: real
  spoke_count :: int
  spin_impulse_min :: real
  spin_impulse_max :: real
  ball_boost_speed_m_s :: real

text \<open>The class \<open>Config\<close> with the values of its attributes.\<close>

definition Config :: config where
  "Config =
     \<lparr> window_size_px = 820,
       background_color = (15, 17, 21),
       rim_inner_color = (27, 32, 48),
       rim_outer_color = (43, 49, 70),
       spoke_color_a = (255, 255, 255),
       spoke_color_b = (220, 225, 238),
       pixels_per_meter = 200,
       gravity_m_s2 = 5,
       air_drag_per_second = 0.10,
       wall_restitution = 0.25,
       mu_static = 0.45,
       mu_kinetic = 0.35,
       inward_radial_accel_m_s2 = 1.8,
       wheel_angular_friction_per_second = 0.25,
       ball_angular_friction_per_second = 2,
       ball_spin_gain = 6,
       rim_thickness_px = 24,
       ball_radius_px = 10,
       spoke_count = 36,
       spin_impulse_min = 0.6,
       spin_impulse_max = 1.2,
       ball_boost_speed_m_s = 2.2 \<rparr>"

text \<open>
  The class \<open>Ball\<close>; its attributes \<open>x\<close>, \<open>y\<close>, \<open>vx\<close>, \<open>vy\<close> carry the prefix
  \<open>ball_\<close> here, since a record field is a constant of the theory.
\<close>

record Ball =
  ball_x :: real
  ball_y :: real
  ball_vx :: real
  ball_vy :: real

text \<open>The attributes of \<open>SpinningWheelSimulation\<close>.\<close>

record sim =
  cfg :: config
  width :: int
  height :: int
  center_x :: real
  center_y :: real
  wheel_radius_px :: real
  wheel_angle :: real
  wheel_omega :: real
  ball :: Ball
  ball_angle :: real
  ball_omega :: real

subsection \<open>Library functions of Python\<close>

text \<open>\<open>math.hypot\<close>, \<open>math.copysign\<close> (on reals there is no negative zero), \<open>math.tau\<close>,
  the operator \<open>or\<close> on floats (the left operand unless it is zero), and
  \<open>random.uniform(a, b)\<close>, which is \<open>a + (b - a) * random.random()\<close>.\<close>

definition hypot :: "real \<Rightarrow> real \<Rightarrow> real" where
  "hypot a b = sqrt (a\<^sup>2 + b\<^sup>2)"

definition copysign :: "real \<Rightarrow> real \<Rightarrow> real" where
  "copysign a b = (if 0 \<le> b then \<bar>a\<bar> else - \<bar>a\<bar>)"

definition tau :: real where
  "tau = 2 * pi"

definition float_or :: "real \<Rightarrow> real \<Rightarrow> real" where
  "float_or a b = (if a \<noteq> 0 then a else b)"

definition uniform :: "real \<Rightarrow> real \<Rightarrow> real \<Rightarrow> real" where
  "uniform a b u = a + (b - a) * u"

subsection \<open>Placement, resize and spin impulse\<close>

text \<open>\<open>place_ball_near_rim\<close>; \<open>u\<close> is the value of \<open>random.random()\<close>, in \<open>[0, 1)\<close>.\<close>

definition place_ball_near_rim :: "sim \<Rightarrow> real \<Rightarrow> sim" where
  "place_ball_near_rim s u =
     (let angle = u * tau;
          r = wheel_radius_px s - ball_radius_px (cfg s) - 1;
          ux = cos angle;
          uy = sin angle;
          tangential_x = - uy;
          tangential_y = ux;
          boost = ball_boost_speed_m_s (cfg s) * pixels_per_meter (cfg s)
      in s\<lparr> ball := \<lparr> ball_x = center_x s + ux * r,
                      ball_y = center_y s + uy * r,
                      ball_vx = tangential_x * boost,
                      ball_vy = tangential_y * boost \<rparr> \<rparr>)"

text \<open>The constructor \<open>__init__\<close>.\<close>

definition init :: "config \<Rightarrow> real \<Rightarrow> sim" where
  "init c u =
     (let w = window_size_px c;
          h = window_size_px c;
          visual_radius = real_of_int (min w h) * 0.45
      in place_ball_near_rim
           \<lparr> cfg = c, width = w, height = h,
             center_x = real_of_int w * 0.5,
             center_y = real_of_int h * 0.5,
             wheel_radius_px = max 40 (visual_radius - rim_thickness_px c),
             wheel_angle = 0,
             wheel_omega = 0.4,
             ball = \<lparr> ball_x = 0, ball_y = 0, ball_vx = 0, ball_vy = 0 \<rparr>,
             ball_angle = 0,
             ball_omega = 0 \<rparr> u)"


text \<open>\<open>randomize_spin\<close>; \<open>u\<close> is the value of \<open>random.random()\<close> inside
  \<open>random.uniform\<close>.\<close>

definition randomize_spin :: "sim \<Rightarrow> real \<Rightarrow> sim" where
  "randomize_spin s u =
     s\<lparr> wheel_omega :=
          wheel_omega s + uniform (spin_impulse_min (cfg s)) (spin_impulse_max (cfg s)) u \<rparr>"

subsection \<open>The step \<open>update\<close>\<close>

text \<open>
  Lines 97 to 113 of \<open>update\<close>: gravity, air drag, position, wheel decay and angle,
  damping of the ball's spin.
\<close>

definition integrate :: "sim \<Rightarrow> real \<Rightarrow> sim" where
  "integrate s dt =
     (let g = gravity_m_s2 (cfg s) * pixels_per_meter (cfg s);
          vy1 = ball_vy (ball s) + g * dt;
          air_k = max 0 (1 - air_drag_per_second (cfg s) * dt);
          vx2 = ball_vx (ball s) * air_k;
          vy2 = vy1 * air_k;
          x2 = ball_x (ball s) + vx2 * dt;
          y2 = ball_y (ball s) + vy2 * dt;
          omega_k = max 0 (1 - wheel_angular_friction_per_second (cfg s) * dt);
          wheel_omega2 = wheel_omega s * omega_k;
          ball_spin_k = max 0 (1 - ball_angular_friction_per_second (cfg s) * dt)
      in s\<lparr> ball := \<lparr> ball_x = x2, ball_y = y2, ball_vx = vx2, ball_vy = vy2 \<rparr>,
            wheel_omega := wheel_omega2,
            wheel_angle := wheel_angle s + wheel_omega2 * dt,
            ball_omega := ball_omega s * ball_spin_k \<rparr>)"

text \<open>
  The local variables of the collision code (lines 116 to 153), each as a function of
  the state it is computed in, which is the state after \<open>integrate\<close>. The position
  correction of lines 125 and 126 changes none of the values they read later. The
  variable \<open>dist\<close> is \<open>dist_ball\<close> here, \<open>dist\<close> being the metric of the library.
\<close>

definition dx :: "sim \<Rightarrow> real" where
  "dx s = ball_x (ball s) - center_x s"

definition dy :: "sim \<Rightarrow> real" where
  "dy s = ball_y (ball s) - center_y s"

definition dist_ball :: "sim \<Rightarrow> real" where
  "dist_ball s = float_or (hypot (dx s) (dy s)) (1 / 10 ^ 6)"

definition nx :: "sim \<Rightarrow> real" where
  "nx s = dx s / dist_ball s"

definition ny :: "sim \<Rightarrow> real" where
  "ny s = dy s / dist_ball s"

definition allowed :: "sim \<Rightarrow> real" where
  "allowed s = wheel_radius_px s - ball_radius_px (cfg s)"

definition penetration :: "sim \<Rightarrow> real" where
  "penetration s = dist_ball s - allowed s"

definition v_normal :: "sim \<Rightarrow> real" where
  "v_normal s = ball_vx (ball s) * nx s + ball_vy (ball s) * ny s"

definition tx :: "sim \<Rightarrow> real" where
  "tx s = - ny s"

definition ty :: "sim \<Rightarrow> real" where
  "ty s = nx s"

definition v_tangential :: "sim \<Rightarrow> real" where
  "v_tangential s = ball_vx (ball s) * tx s + ball_vy (ball s) * ty s"

definition v_n :: "sim \<Rightarrow> real" where
  "v_n s = (if v_normal s > 0 then - v_normal s * wall_restitution (cfg s) else v_normal s)"

definition surface_speed :: "sim \<Rightarrow> real" where
  "surface_speed s = wheel_omega s * allowed s"

definition slip :: "sim \<Rightarrow> real" where
  "slip s = v_tangential s - surface_speed s - ball_omega s * allowed s"

definition N :: "sim \<Rightarrow> real" where
  "N s = max 0 ((v_tangential s * v_tangential s) / max 1 (allowed s)
               + max 0 ((gravity_m_s2 (cfg s) * pixels_per_meter (cfg s)) * ny s))"

definition Jmax_static :: "sim \<Rightarrow> real \<Rightarrow> real" where
  "Jmax_static s dt = mu_static (cfg s) * N s * dt"

definition Jmax_kinetic :: "sim \<Rightarrow> real \<Rightarrow> real" where
  "Jmax_kinetic s dt = mu_kinetic (cfg s) * N s * dt"

definition J_static :: "sim \<Rightarrow> real" where
  "J_static s = - slip s / 3"

definition Jt :: "sim \<Rightarrow> real \<Rightarrow> real" where
  "Jt s dt = (if \<bar>J_static s\<bar> \<le> Jmax_static s dt then J_static s
              else - copysign (Jmax_kinetic s dt) (slip s))"

definition v_t :: "sim \<Rightarrow> real \<Rightarrow> real" where
  "v_t s dt = v_tangential s + Jt s dt"

definition inward_accel :: "sim \<Rightarrow> real" where
  "inward_accel s = inward_radial_accel_m_s2 (cfg s) * pixels_per_meter (cfg s)"

text \<open>The body of \<open>if dist > allowed\<close> (lines 124 to 164).\<close>

definition resolve_contact :: "sim \<Rightarrow> real \<Rightarrow> sim" where
  "resolve_contact s dt =
     s\<lparr> ball := \<lparr> ball_x = ball_x (ball s) - nx s * penetration s,
                  ball_y = ball_y (ball s) - ny s * penetration s,
                  ball_vx = (v_n s * nx s + v_t s dt * tx s) + - nx s * inward_accel s * dt,
                  ball_vy = (v_n s * ny s + v_t s dt * ty s) + - ny s * inward_accel s * dt \<rparr>,
        ball_omega := ball_omega s + - 2 * Jt s dt / max 1 (ball_radius_px (cfg s)) \<rparr>"

text \<open>\<open>update\<close>: the integration, the collision with the inner rim when the ball is
  beyond it, and the integration of the ball's rotation (line 167).\<close>

definition update :: "sim \<Rightarrow> real \<Rightarrow> sim" where
  "update s dt =
     (let s1 = integrate s dt;
          s2 = (if dist_ball s1 > allowed s1 then resolve_contact s1 dt else s1)
      in s2\<lparr> ball_angle := ball_angle s2 + ball_omega s2 * dt \<rparr>)"

text \<open>The distance of the ball from the centre of the wheel, and the speed of the ball.\<close>

definition distance_to_center :: "sim \<Rightarrow> real" where
  "distance_to_center s = hypot (dx s) (dy s)"

definition speed :: "sim \<Rightarrow> real" where
  "speed s = hypot (ball_vx (ball s)) (ball_vy (ball s))"

text \<open>A run of \<open>update\<close> calls, one for each time step of the list.\<close>

fun run :: "sim \<Rightarrow> real list \<Rightarrow> sim" where
  "run s [] = s"
| "run s (dt # dts) = run (update s dt) dts"

subsection \<open>Reachable states\<close>


subsection \<open>Example states\<close>

text \<open>
  States used to run the definitions on: the state after the constructor with the ball
  moved to the centre of the wheel (\<open>at_center\<close>), a tenth of a micro-pixel beside it
  (\<open>off_center\<close>), and to the lowest point of the rim, moving down
  (\<open>rim_bottom\<close>, and \<open>rim_bottom_slow\<close> on a slower wheel), and to a point beyond
  the rim, moving outward (\<open>beyond_rim\<close>).
\<close>

definition off_center :: sim where
  "off_center = (init Config 0)\<lparr> ball := \<lparr> ball_x = 410 + 1 / 10 ^ 7, ball_y = 410,
                                             ball_vx = 0, ball_vy = 0 \<rparr> \<rparr>"

definition at_center :: sim where
  "at_center = (init Config 0)\<lparr> ball := \<lparr> ball_x = 410, ball_y = 410,
                                            ball_vx = 3, ball_vy = 4 \<rparr> \<rparr>"

definition rim_bottom :: sim where
  "rim_bottom = (init Config 0)\<lparr> ball := \<lparr> ball_x = 410, ball_y = 745,
                                             ball_vx = 0, ball_vy = 100 \<rparr> \<rparr>"



section \<open>Properties\<close>

subsection \<open>What \<open>update\<close> leaves alone\<close>

lemma integrate_frame:
  "cfg (integrate s dt) = cfg s" "width (integrate s dt) = width s"
  "height (integrate s dt) = height s" "center_x (integrate s dt) = center_x s"
  "center_y (integrate s dt) = center_y s"
  "wheel_radius_px (integrate s dt) = wheel_radius_px s"
  by (simp_all add: integrate_def Let_def)

lemma resolve_contact_frame:
  "cfg (resolve_contact s dt) = cfg s" "width (resolve_contact s dt) = width s"
  "height (resolve_contact s dt) = height s" "center_x (resolve_contact s dt) = center_x s"
  "center_y (resolve_contact s dt) = center_y s"
  "wheel_radius_px (resolve_contact s dt) = wheel_radius_px s"
  by (simp_all add: resolve_contact_def)

lemma update_frame:
  "cfg (update s dt) = cfg s" "width (update s dt) = width s"
  "height (update s dt) = height s" "center_x (update s dt) = center_x s"
  "center_y (update s dt) = center_y s"
  "wheel_radius_px (update s dt) = wheel_radius_px s"
  by (simp_all add: update_def Let_def integrate_frame resolve_contact_frame)

lemma update_allowed: "allowed (update s dt) = allowed s"
  by (simp add: allowed_def update_frame)

text \<open>
  C10. \<open>update\<close> changes only the dynamic state: the configuration (the whole \<open>Config\<close>
  value, hence each of its fields), \<open>width\<close>, \<open>height\<close>, \<open>center_x\<close>, \<open>center_y\<close> and
  \<open>wheel_radius_px\<close> are the same after the call, for every state and every \<open>dt\<close>. The
  result is a function of the state and \<open>dt\<close> alone: \<open>update\<close> draws no random number.
\<close>

theorem update_frame_property:
  "cfg (update s dt) = cfg s \<and> width (update s dt) = width s
   \<and> height (update s dt) = height s \<and> center_x (update s dt) = center_x s
   \<and> center_y (update s dt) = center_y s
   \<and> wheel_radius_px (update s dt) = wheel_radius_px s
   \<and> update s dt = s\<lparr> ball := ball (update s dt),
                       wheel_angle := wheel_angle (update s dt),
                       wheel_omega := wheel_omega (update s dt),
                       ball_angle := ball_angle (update s dt),
                       ball_omega := ball_omega (update s dt) \<rparr>"
proof -
  have "update s dt = s\<lparr> ball := ball (update s dt),
                       wheel_angle := wheel_angle (update s dt),
                       wheel_omega := wheel_omega (update s dt),
                       ball_angle := ball_angle (update s dt),
                       ball_omega := ball_omega (update s dt) \<rparr>"
    by (rule sim.equality) (simp_all add: update_frame)
  then show ?thesis
    using update_frame [of s dt] by blast
qed


subsection \<open>Facts about the library functions and the configuration\<close>

lemma hypot_zero_right: "hypot a 0 = \<bar>a\<bar>"
  by (simp add: hypot_def)

lemma hypot_zero_left: "hypot 0 b = \<bar>b\<bar>"
  by (simp add: hypot_def)

lemma hypot_nonneg: "0 \<le> hypot a b"
  by (simp add: hypot_def)

lemma hypot_eq_0_iff: "hypot a b = 0 \<longleftrightarrow> a = 0 \<and> b = 0"
  by (simp add: hypot_def)

lemma hypot_scale: "hypot (a * k) (b * k) = hypot a b * \<bar>k\<bar>"
proof -
  have "(a * k)\<^sup>2 + (b * k)\<^sup>2 = (a\<^sup>2 + b\<^sup>2) * k\<^sup>2"
    by (simp add: power_mult_distrib distrib_right)
  then show ?thesis
    by (simp add: hypot_def real_sqrt_mult)
qed

lemma hypot_cos_sin: "hypot (cos a * r) (sin a * r) = \<bar>r\<bar>"
proof -
  have "hypot (cos a * r) (sin a * r) = hypot (cos a) (sin a) * \<bar>r\<bar>"
    by (rule hypot_scale)
  also have "hypot (cos a) (sin a) = 1"
    by (simp add: hypot_def)
  finally show ?thesis by simp
qed

lemma hypot_sin_cos: "hypot (- sin a * r) (cos a * r) = \<bar>r\<bar>"
proof -
  have "hypot (- sin a * r) (cos a * r) = hypot (- sin a) (cos a) * \<bar>r\<bar>"
    by (rule hypot_scale)
  also have "hypot (- sin a) (cos a) = 1"
    by (simp add: hypot_def)
  finally show ?thesis by simp
qed

lemma hypot_le: "0 \<le> c \<Longrightarrow> a\<^sup>2 + b\<^sup>2 \<le> c\<^sup>2 \<Longrightarrow> hypot a b \<le> c"
  unfolding hypot_def by (rule real_le_lsqrt) simp_all

lemma hypot_triangle: "hypot a (b + d) \<le> hypot a b + \<bar>d\<bar>"
  using real_sqrt_sum_squares_triangle_ineq [of a 0 b d] by (simp add: hypot_def)

lemma Config_fields:
  "pixels_per_meter Config = 200" "gravity_m_s2 Config = 5"
  "air_drag_per_second Config = 1 / 10" "wall_restitution Config = 1 / 4"
  "mu_static Config = 9 / 20" "mu_kinetic Config = 7 / 20"
  "inward_radial_accel_m_s2 Config = 9 / 5"
  "wheel_angular_friction_per_second Config = 1 / 4"
  "ball_angular_friction_per_second Config = 2" "rim_thickness_px Config = 24"
  "ball_radius_px Config = 10" "spin_impulse_min Config = 3 / 5"
  "spin_impulse_max Config = 6 / 5" "ball_boost_speed_m_s Config = 11 / 5"
  "window_size_px Config = 820"
  by (simp_all add: Config_def)

lemma init_Config_fields:
  "cfg (init Config u) = Config" "wheel_omega (init Config u) = 0.4"
  "wheel_radius_px (init Config u) = 345" "center_x (init Config u) = 410"
  "center_y (init Config u) = 410"
  by (simp_all add: init_def Let_def place_ball_near_rim_def Config_def)

lemma init_Config_dynamic:
  "ball_omega (init Config u) = 0" "wheel_angle (init Config u) = 0"
  "ball_angle (init Config u) = 0"
  by (simp_all add: init_def Let_def place_ball_near_rim_def)

lemma place_ball_near_rim_ball:
  "ball (place_ball_near_rim s u) =
     \<lparr> ball_x = center_x s + cos (u * tau) * (wheel_radius_px s - ball_radius_px (cfg s) - 1),
       ball_y = center_y s + sin (u * tau) * (wheel_radius_px s - ball_radius_px (cfg s) - 1),
       ball_vx = - sin (u * tau) * (ball_boost_speed_m_s (cfg s) * pixels_per_meter (cfg s)),
       ball_vy = cos (u * tau) * (ball_boost_speed_m_s (cfg s) * pixels_per_meter (cfg s)) \<rparr>"
  by (simp add: place_ball_near_rim_def Let_def)

lemma init_Config_0_ball:
  "ball (init Config 0) = \<lparr> ball_x = 744, ball_y = 410, ball_vx = 0, ball_vy = 440 \<rparr>"
  by (simp add: init_def Let_def place_ball_near_rim_ball Config_fields)

subsection \<open>Decay of the wheel's angular velocity\<close>

lemma update_wheel_omega:
  "wheel_omega (update s dt) =
     wheel_omega s * max 0 (1 - wheel_angular_friction_per_second (cfg s) * dt)"
  by (simp add: update_def Let_def integrate_def resolve_contact_def)

text \<open>
  C8. For every \<open>dt \<ge> 0\<close> (and a friction coefficient that is not negative, as the one
  of \<open>Config\<close>), \<open>update\<close> multiplies \<open>wheel_omega\<close> by
  \<open>max 0 (1 - wheel_angular_friction_per_second * dt)\<close>, a factor between 0 and 1: the
  absolute value of \<open>wheel_omega\<close> does not increase and its sign does not flip.
\<close>

theorem wheel_omega_decay:
  assumes "0 \<le> dt" and "0 \<le> wheel_angular_friction_per_second (cfg s)"
  shows "wheel_omega (update s dt) =
           wheel_omega s * max 0 (1 - wheel_angular_friction_per_second (cfg s) * dt)
         \<and> 0 \<le> max 0 (1 - wheel_angular_friction_per_second (cfg s) * dt)
         \<and> max 0 (1 - wheel_angular_friction_per_second (cfg s) * dt) \<le> 1
         \<and> \<bar>wheel_omega (update s dt)\<bar> \<le> \<bar>wheel_omega s\<bar>
         \<and> (0 \<le> wheel_omega s \<longrightarrow> 0 \<le> wheel_omega (update s dt))
         \<and> (wheel_omega s \<le> 0 \<longrightarrow> wheel_omega (update s dt) \<le> 0)"
proof -
  let ?k = "max 0 (1 - wheel_angular_friction_per_second (cfg s) * dt)"
  have k0: "0 \<le> ?k" by simp
  have "0 \<le> wheel_angular_friction_per_second (cfg s) * dt"
    using assms by simp
  then have k1: "?k \<le> 1" by simp
  have eq: "wheel_omega (update s dt) = wheel_omega s * ?k"
    by (rule update_wheel_omega)
  have "\<bar>wheel_omega s * ?k\<bar> = \<bar>wheel_omega s\<bar> * ?k"
    using k0 by (simp add: abs_mult)
  also have "\<dots> \<le> \<bar>wheel_omega s\<bar> * 1"
    using k1 by (intro mult_left_mono) simp_all
  finally have ab: "\<bar>wheel_omega (update s dt)\<bar> \<le> \<bar>wheel_omega s\<bar>"
    using eq by simp
  have pos: "0 \<le> wheel_omega s \<longrightarrow> 0 \<le> wheel_omega (update s dt)"
    using eq k0 by (simp add: mult_nonneg_nonneg)
  have neg: "wheel_omega s \<le> 0 \<longrightarrow> wheel_omega (update s dt) \<le> 0"
    using eq k0 by (simp add: mult_nonpos_nonneg)
  show ?thesis using eq k0 k1 ab pos neg by blast
qed


text \<open>The state after the constructor, one step of 16 ms: \<open>0.4 * (1 - 0.25 * 0.016)\<close>.\<close>

theorem wheel_omega_decay_witness:
  "wheel_omega (update (init Config 0) (16 / 1000)) = 0.3984
   \<and> \<bar>wheel_omega (update (init Config 0) (16 / 1000))\<bar> \<le> \<bar>wheel_omega (init Config 0)\<bar>
   \<and> 0 \<le> wheel_omega (update (init Config 0) (16 / 1000))"
  using wheel_omega_decay [of "16 / 1000" "init Config 0"]
  by (simp add: init_Config_fields Config_fields)

subsection \<open>The spin impulse\<close>

text \<open>
  C7. \<open>randomize_spin\<close> changes \<open>wheel_omega\<close> only, by adding the number drawn by
  \<open>random.uniform(spin_impulse_min, spin_impulse_max)\<close>: with
  \<open>0 < spin_impulse_min \<le> spin_impulse_max\<close> (as in \<open>Config\<close>) the amount added lies in
  \<open>[spin_impulse_min, spin_impulse_max]\<close> and \<open>wheel_omega\<close> strictly increases; a second
  call adds such an amount again on top of the value left by the first.
\<close>

theorem randomize_spin_additive:
  assumes "0 \<le> u1" "u1 < 1" "0 \<le> u2" "u2 < 1"
    and "0 < spin_impulse_min (cfg s)"
    and "spin_impulse_min (cfg s) \<le> spin_impulse_max (cfg s)"
  shows "randomize_spin s u1 =
           s\<lparr> wheel_omega := wheel_omega s
                 + uniform (spin_impulse_min (cfg s)) (spin_impulse_max (cfg s)) u1 \<rparr>
         \<and> spin_impulse_min (cfg s) \<le> wheel_omega (randomize_spin s u1) - wheel_omega s
         \<and> wheel_omega (randomize_spin s u1) - wheel_omega s \<le> spin_impulse_max (cfg s)
         \<and> wheel_omega s < wheel_omega (randomize_spin s u1)
         \<and> spin_impulse_min (cfg s)
             \<le> wheel_omega (randomize_spin (randomize_spin s u1) u2)
                 - wheel_omega (randomize_spin s u1)
         \<and> wheel_omega (randomize_spin (randomize_spin s u1) u2)
               - wheel_omega (randomize_spin s u1) \<le> spin_impulse_max (cfg s)
         \<and> wheel_omega (randomize_spin s u1)
             < wheel_omega (randomize_spin (randomize_spin s u1) u2)"
proof -
  let ?a = "spin_impulse_min (cfg s)" and ?b = "spin_impulse_max (cfg s)"
  have rng: "?a \<le> uniform ?a ?b u \<and> uniform ?a ?b u \<le> ?b" if "0 \<le> u" "u < 1" for u
  proof -
    have "0 \<le> (?b - ?a) * u"
      using assms(6) that by simp
    moreover have "(?b - ?a) * u \<le> (?b - ?a) * 1"
      using assms(6) that by (intro mult_left_mono) simp_all
    ultimately show ?thesis by (simp add: uniform_def)
  qed
  have c: "cfg (randomize_spin s u1) = cfg s"
    by (simp add: randomize_spin_def)
  have d1: "wheel_omega (randomize_spin s u1) - wheel_omega s = uniform ?a ?b u1"
    by (simp add: randomize_spin_def)
  have d2: "wheel_omega (randomize_spin (randomize_spin s u1) u2)
              - wheel_omega (randomize_spin s u1) = uniform ?a ?b u2"
    by (simp add: randomize_spin_def)
  have e: "randomize_spin s u1 = s\<lparr> wheel_omega := wheel_omega s + uniform ?a ?b u1 \<rparr>"
    by (simp add: randomize_spin_def)
  have r1: "?a \<le> uniform ?a ?b u1" "uniform ?a ?b u1 \<le> ?b"
    using rng [OF assms(1,2)] by simp_all
  have r2: "?a \<le> uniform ?a ?b u2" "uniform ?a ?b u2 \<le> ?b"
    using rng [OF assms(3,4)] by simp_all
  have g1: "?a \<le> wheel_omega (randomize_spin s u1) - wheel_omega s"
    and g2: "wheel_omega (randomize_spin s u1) - wheel_omega s \<le> ?b"
    and g3: "wheel_omega s < wheel_omega (randomize_spin s u1)"
    using d1 r1 assms(5) by linarith+
  have g4: "?a \<le> wheel_omega (randomize_spin (randomize_spin s u1) u2)
                  - wheel_omega (randomize_spin s u1)"
    and g5: "wheel_omega (randomize_spin (randomize_spin s u1) u2)
               - wheel_omega (randomize_spin s u1) \<le> ?b"
    and g6: "wheel_omega (randomize_spin s u1)
               < wheel_omega (randomize_spin (randomize_spin s u1) u2)"
    using d2 r2 assms(5) by linarith+
  show ?thesis
    using e g1 g2 g3 g4 g5 g6 by blast
qed

text \<open>Two impulses after the constructor, with draws \<open>1/2\<close> and \<open>0\<close>: \<open>0.9\<close> and \<open>0.6\<close>.\<close>

theorem randomize_spin_additive_witness:
  "wheel_omega (randomize_spin (init Config 0) (1 / 2)) = 0.4 + 0.9
   \<and> wheel_omega (randomize_spin (randomize_spin (init Config 0) (1 / 2)) 0) = 0.4 + 0.9 + 0.6
   \<and> wheel_omega (init Config 0) < wheel_omega (randomize_spin (init Config 0) (1 / 2))
   \<and> wheel_omega (randomize_spin (init Config 0) (1 / 2))
       < wheel_omega (randomize_spin (randomize_spin (init Config 0) (1 / 2)) 0)"
  using randomize_spin_additive [of "1 / 2" 0 "init Config 0"]
  by (simp add: init_Config_fields Config_fields randomize_spin_def uniform_def)


subsection \<open>Contact detection\<close>

lemma dist_cases:
  "dist_ball s = (if hypot (dx s) (dy s) = 0 then 1 / 10 ^ 6 else hypot (dx s) (dy s))"
  by (simp add: dist_ball_def float_or_def)

lemma dist_pos: "0 < dist_ball s"
proof (cases "hypot (dx s) (dy s) = 0")
  case True
  then show ?thesis by (simp add: dist_cases)
next
  case False
  then have "0 < hypot (dx s) (dy s)"
    using hypot_nonneg [of "dx s" "dy s"] by linarith
  with False show ?thesis by (simp add: dist_cases)
qed

text \<open>
  C4 as stated: the distance that divides is \<open>max(length, 1e-6)\<close>. It is not: the code
  writes \<open>math.hypot(dx, dy) or 1e-6\<close>, which replaces a length of zero only. With the
  ball \<open>1e-7\<close> to the right of the centre the distance is \<open>1e-7\<close>, not \<open>1e-6\<close>.
\<close>

theorem dist_is_max_counterexample:
  "dist_ball off_center = 1 / 10 ^ 7
   \<and> max (hypot (dx off_center) (dy off_center)) (1 / 10 ^ 6) = 1 / 10 ^ 6
   \<and> dist_ball off_center \<noteq> max (hypot (dx off_center) (dy off_center)) (1 / 10 ^ 6)"
proof -
  have x: "dx off_center = 1 / 10 ^ 7" and y: "dy off_center = 0"
    by (simp_all add: off_center_def dx_def dy_def init_Config_fields)
  have h: "hypot (dx off_center) (dy off_center) = 1 / 10 ^ 7"
    unfolding x y hypot_zero_right by simp
  show ?thesis
    unfolding dist_cases h by simp
qed

text \<open>
  C4, amended. The distance that forms the unit normal is the length of the vector from
  the centre to the ball when that length is not zero, and \<open>1e-6\<close> when it is zero. It
  is positive in every state, so the division never divides by zero; it equals
  \<open>max(length, 1e-6)\<close> when the length is zero or at least \<open>1e-6\<close>. With the ball on
  the centre, the distance is \<open>1e-6\<close> and the normal is the zero vector.
\<close>

theorem dist_floor_nonzero:
  "dist_ball s = (if hypot (dx s) (dy s) = 0 then 1 / 10 ^ 6 else hypot (dx s) (dy s))
   \<and> 0 < dist_ball s
   \<and> (hypot (dx s) (dy s) = 0 \<or> 1 / 10 ^ 6 \<le> hypot (dx s) (dy s)
        \<longrightarrow> dist_ball s = max (hypot (dx s) (dy s)) (1 / 10 ^ 6))
   \<and> (ball_x (ball s) = center_x s \<and> ball_y (ball s) = center_y s
        \<longrightarrow> dist_ball s = 1 / 10 ^ 6 \<and> nx s = 0 \<and> ny s = 0)"
proof -
  have a: "dist_ball s = (if hypot (dx s) (dy s) = 0 then 1 / 10 ^ 6 else hypot (dx s) (dy s))"
    by (rule dist_cases)
  have b: "0 < dist_ball s" by (rule dist_pos)
  have c: "dist_ball s = max (hypot (dx s) (dy s)) (1 / 10 ^ 6)"
    if "hypot (dx s) (dy s) = 0 \<or> 1 / 10 ^ 6 \<le> hypot (dx s) (dy s)"
    using that by (auto simp add: dist_cases)
  have d: "dist_ball s = 1 / 10 ^ 6 \<and> nx s = 0 \<and> ny s = 0"
    if "ball_x (ball s) = center_x s \<and> ball_y (ball s) = center_y s"
  proof -
    from that have "dx s = 0" "dy s = 0" by (simp_all add: dx_def dy_def)
    then show ?thesis by (simp add: dist_cases hypot_def nx_def ny_def)
  qed
  from a b c d show ?thesis by blast
qed

text \<open>The ball on the centre of the wheel.\<close>

theorem dist_floor_nonzero_witness:
  "dist_ball at_center = 1 / 10 ^ 6 \<and> nx at_center = 0 \<and> ny at_center = 0
   \<and> dist_ball at_center = max (hypot (dx at_center) (dy at_center)) (1 / 10 ^ 6)"
proof -
  have "ball_x (ball at_center) = center_x at_center \<and> ball_y (ball at_center) = center_y at_center"
    by (simp add: at_center_def init_Config_fields)
  moreover have "hypot (dx at_center) (dy at_center) = 0"
    by (simp add: at_center_def init_Config_fields dx_def dy_def hypot_def)
  ultimately show ?thesis
    using dist_floor_nonzero [of at_center] by simp
qed


text \<open>
  Python raises \<open>ZeroDivisionError\<close> on a float division by zero, where HOL returns
  zero. The divisors of \<open>update\<close> are \<open>dist\<close>, \<open>max(1.0, allowed)\<close> and
  \<open>max(1.0, ball_radius_px)\<close>: all three are positive in every state, so the model
  leaves no raise out.
\<close>

lemma update_divisors_positive:
  "0 < dist_ball s" "0 < max 1 (allowed s)" "0 < max 1 (ball_radius_px (cfg s))"
  by (simp_all add: dist_pos)

subsection \<open>Contact resolution\<close>

lemma normal_unit:
  assumes "hypot (dx s) (dy s) \<noteq> 0"
  shows "nx s * nx s + ny s * ny s = 1"
proof -
  have d: "dist_ball s = hypot (dx s) (dy s)"
    using assms by (simp add: dist_cases)
  let ?h = "hypot (dx s) (dy s)"
  have hh: "?h * ?h = dx s * dx s + dy s * dy s"
    by (simp add: hypot_def power2_eq_square)
  have "nx s * nx s + ny s * ny s = (dx s * dx s + dy s * dy s) / (?h * ?h)"
    unfolding nx_def ny_def d by (simp add: add_divide_distrib)
  also have "\<dots> = 1"
    unfolding hh [symmetric] using assms by simp
  finally show ?thesis .
qed

lemma update_contact:
  assumes "allowed (integrate s dt) < dist_ball (integrate s dt)"
  shows "ball (update s dt) = ball (resolve_contact (integrate s dt) dt)"
    and "ball_omega (update s dt) = ball_omega (resolve_contact (integrate s dt) dt)"
  using assms by (simp_all add: update_def Let_def)

lemma update_no_contact:
  assumes "\<not> allowed (integrate s dt) < dist_ball (integrate s dt)"
  shows "ball (update s dt) = ball (integrate s dt)"
    and "ball_omega (update s dt) = ball_omega (integrate s dt)"
  using assms by (simp_all add: update_def Let_def)

lemma resolve_contact_velocity:
  "ball_vx (ball (resolve_contact s dt)) =
     v_n s * nx s + v_t s dt * tx s - nx s * inward_accel s * dt"
  "ball_vy (ball (resolve_contact s dt)) =
     v_n s * ny s + v_t s dt * ty s - ny s * inward_accel s * dt"
  by (simp_all add: resolve_contact_def)

lemma resolve_contact_components:
  assumes "hypot (dx s) (dy s) \<noteq> 0"
  shows "ball_vx (ball (resolve_contact s dt)) * nx s + ball_vy (ball (resolve_contact s dt)) * ny s
           = v_n s - inward_accel s * dt"
    and "ball_vx (ball (resolve_contact s dt)) * tx s + ball_vy (ball (resolve_contact s dt)) * ty s
           = v_t s dt"
proof -
  have u: "nx s * nx s + ny s * ny s = 1"
    using assms by (rule normal_unit)
  have "ball_vx (ball (resolve_contact s dt)) * nx s + ball_vy (ball (resolve_contact s dt)) * ny s
          = (v_n s - inward_accel s * dt) * (nx s * nx s + ny s * ny s)"
    by (simp add: resolve_contact_velocity tx_def ty_def algebra_simps)
  then show "ball_vx (ball (resolve_contact s dt)) * nx s + ball_vy (ball (resolve_contact s dt)) * ny s
           = v_n s - inward_accel s * dt"
    using u by simp
  have "ball_vx (ball (resolve_contact s dt)) * tx s + ball_vy (ball (resolve_contact s dt)) * ty s
          = v_t s dt * (nx s * nx s + ny s * ny s)"
    by (simp add: resolve_contact_velocity tx_def ty_def algebra_simps)
  then show "ball_vx (ball (resolve_contact s dt)) * tx s + ball_vy (ball (resolve_contact s dt)) * ty s
           = v_t s dt"
    using u by simp
qed

text \<open>
  One step of 10 ms from \<open>rim_bottom\<close>: the ball ends 1.0989 beyond the allowed radius
  of 335, straight below the centre, so the normal is \<open>(0, 1)\<close>.
\<close>

lemma rim_bottom_step:
  "ball (integrate rim_bottom (1 / 100))
     = \<lparr> ball_x = 410, ball_y = 746.0989, ball_vx = 0, ball_vy = 109.89 \<rparr>"
  "wheel_omega (integrate rim_bottom (1 / 100)) = 0.399"
  "ball_omega (integrate rim_bottom (1 / 100)) = 0"
  "cfg (integrate rim_bottom (1 / 100)) = Config"
  "center_x (integrate rim_bottom (1 / 100)) = 410"
  "center_y (integrate rim_bottom (1 / 100)) = 410"
  "wheel_radius_px (integrate rim_bottom (1 / 100)) = 345"
  by (simp_all add: integrate_def Let_def rim_bottom_def init_Config_fields
      init_Config_dynamic Config_fields)

lemma rim_bottom_contact:
  "dx (integrate rim_bottom (1 / 100)) = 0"
  "dy (integrate rim_bottom (1 / 100)) = 336.0989"
  "dist_ball (integrate rim_bottom (1 / 100)) = 336.0989"
  "allowed (integrate rim_bottom (1 / 100)) = 335"
  "nx (integrate rim_bottom (1 / 100)) = 0"
  "ny (integrate rim_bottom (1 / 100)) = 1"
  by (simp_all add: dx_def dy_def dist_cases nx_def ny_def allowed_def hypot_zero_left
      rim_bottom_step Config_fields)

lemma rim_bottom_velocity:
  "v_normal (integrate rim_bottom (1 / 100)) = 109.89"
  "v_tangential (integrate rim_bottom (1 / 100)) = 0"
  "v_n (integrate rim_bottom (1 / 100)) = - 27.4725"
  "slip (integrate rim_bottom (1 / 100)) = - 133.665"
  "N (integrate rim_bottom (1 / 100)) = 1000"
  "inward_accel (integrate rim_bottom (1 / 100)) = 360"
  by (simp_all add: v_normal_def v_tangential_def v_n_def slip_def surface_speed_def N_def
      inward_accel_def tx_def ty_def rim_bottom_contact rim_bottom_step Config_fields)

lemma rim_bottom_impulse:
  "Jt (integrate rim_bottom (1 / 100)) (1 / 100) = 3.5"
  "v_t (integrate rim_bottom (1 / 100)) (1 / 100) = 3.5"
  by (simp_all add: v_t_def Jt_def J_static_def Jmax_static_def Jmax_kinetic_def copysign_def
      rim_bottom_velocity rim_bottom_step Config_fields)




text \<open>
  C5. On a step that resolves a contact (\<open>s1\<close> is the state after the integration, the
  ball beyond the allowed radius), the velocity of the ball after \<open>update\<close> is
  \<open>v_n * n + v_t * t\<close> plus the inward bias along \<open>- n\<close>, where the normal part \<open>v_n\<close> is
  \<open>- wall_restitution\<close> times the normal component \<open>v \<bullet> n\<close> of the velocity when that
  component is positive, and the component itself when it is not. With a restitution in
  \<open>[0, 1]\<close> the bounce does not increase the absolute value of the normal component. When
  the ball is not on the centre, \<open>n\<close> is a unit vector and the normal component of the new
  velocity is \<open>v_n\<close> minus the inward bias.
\<close>

theorem bounce_normal_component:
  assumes "s1 = integrate s dt" and "allowed s1 < dist_ball s1"
  shows "ball_vx (ball (update s dt))
           = v_n s1 * nx s1 + v_t s1 dt * tx s1 - nx s1 * inward_accel s1 * dt
         \<and> ball_vy (ball (update s dt))
           = v_n s1 * ny s1 + v_t s1 dt * ty s1 - ny s1 * inward_accel s1 * dt
         \<and> v_normal s1 = ball_vx (ball s1) * nx s1 + ball_vy (ball s1) * ny s1
         \<and> (0 < v_normal s1 \<longrightarrow> v_n s1 = - v_normal s1 * wall_restitution (cfg s))
         \<and> (v_normal s1 \<le> 0 \<longrightarrow> v_n s1 = v_normal s1)
         \<and> (0 \<le> wall_restitution (cfg s) \<and> wall_restitution (cfg s) \<le> 1
              \<longrightarrow> \<bar>v_n s1\<bar> \<le> \<bar>v_normal s1\<bar>)
         \<and> (hypot (dx s1) (dy s1) \<noteq> 0
              \<longrightarrow> ball_vx (ball (update s dt)) * nx s1 + ball_vy (ball (update s dt)) * ny s1
                    = v_n s1 - inward_accel s1 * dt)"
proof -
  have c: "cfg s1 = cfg s"
    by (simp add: assms(1) integrate_frame)
  have b: "ball (update s dt) = ball (resolve_contact s1 dt)"
    using assms update_contact(1) [of s dt] by simp
  have vx: "ball_vx (ball (update s dt))
              = v_n s1 * nx s1 + v_t s1 dt * tx s1 - nx s1 * inward_accel s1 * dt"
    and vy: "ball_vy (ball (update s dt))
              = v_n s1 * ny s1 + v_t s1 dt * ty s1 - ny s1 * inward_accel s1 * dt"
    by (simp_all add: b resolve_contact_velocity)
  have vn: "v_normal s1 = ball_vx (ball s1) * nx s1 + ball_vy (ball s1) * ny s1"
    by (simp add: v_normal_def)
  have up: "0 < v_normal s1 \<longrightarrow> v_n s1 = - v_normal s1 * wall_restitution (cfg s)"
    by (simp add: v_n_def c)
  have down: "v_normal s1 \<le> 0 \<longrightarrow> v_n s1 = v_normal s1"
    by (simp add: v_n_def)
  have en: "\<bar>v_n s1\<bar> \<le> \<bar>v_normal s1\<bar>"
    if r: "0 \<le> wall_restitution (cfg s) \<and> wall_restitution (cfg s) \<le> 1"
  proof (cases "0 < v_normal s1")
    case True
    have "\<bar>v_n s1\<bar> = \<bar>v_normal s1\<bar> * wall_restitution (cfg s)"
      using True r by (simp add: v_n_def c abs_mult)
    also have "\<dots> \<le> \<bar>v_normal s1\<bar> * 1"
      using r by (intro mult_left_mono) simp_all
    finally show ?thesis by simp
  next
    case False
    then show ?thesis by (simp add: v_n_def)
  qed
  have comp: "ball_vx (ball (update s dt)) * nx s1 + ball_vy (ball (update s dt)) * ny s1
                = v_n s1 - inward_accel s1 * dt"
    if "hypot (dx s1) (dy s1) \<noteq> 0"
    using resolve_contact_components(1) [OF that] by (simp add: b)
  from vx vy vn up down en comp show ?thesis by blast
qed

text \<open>The bounce of that step: the normal component 109.89 becomes \<open>- 109.89 / 4\<close>.\<close>

theorem bounce_normal_component_witness:
  "allowed (integrate rim_bottom (1 / 100)) < dist_ball (integrate rim_bottom (1 / 100))
   \<and> v_normal (integrate rim_bottom (1 / 100)) = 109.89
   \<and> v_n (integrate rim_bottom (1 / 100)) = - 109.89 * wall_restitution (cfg rim_bottom)
   \<and> ball_vx (ball (update rim_bottom (1 / 100))) = - 3.5
   \<and> ball_vy (ball (update rim_bottom (1 / 100))) = - 31.0725"
proof -
  let ?s1 = "integrate rim_bottom (1 / 100)"
  have h: "allowed ?s1 < dist_ball ?s1"
    by (simp add: rim_bottom_contact)
  have p: "0 < v_normal ?s1"
    by (simp add: rim_bottom_velocity)
  note t = bounce_normal_component [OF refl h]
  from t p have "v_n ?s1 = - v_normal ?s1 * wall_restitution (cfg rim_bottom)"
    by blast
  moreover from t have "ball_vx (ball (update rim_bottom (1 / 100)))
      = v_n ?s1 * nx ?s1 + v_t ?s1 (1 / 100) * tx ?s1 - nx ?s1 * inward_accel ?s1 * (1 / 100)"
    by blast
  moreover from t have "ball_vy (ball (update rim_bottom (1 / 100)))
      = v_n ?s1 * ny ?s1 + v_t ?s1 (1 / 100) * ty ?s1 - ny ?s1 * inward_accel ?s1 * (1 / 100)"
    by blast
  ultimately show ?thesis
    using h by (simp add: rim_bottom_velocity rim_bottom_contact rim_bottom_impulse tx_def ty_def)
qed



subsection \<open>Placement of the ball\<close>

lemma place_ball_near_rim_frame:
  "cfg (place_ball_near_rim s u) = cfg s" "center_x (place_ball_near_rim s u) = center_x s"
  "center_y (place_ball_near_rim s u) = center_y s"
  "wheel_radius_px (place_ball_near_rim s u) = wheel_radius_px s"
  "wheel_omega (place_ball_near_rim s u) = wheel_omega s"
  by (simp_all add: place_ball_near_rim_def Let_def)

text \<open>
  C6. For every draw \<open>u\<close> of the placement angle \<open>u * tau\<close>, with a rim that leaves room
  for the ball (\<open>ball_radius_px + 1 \<le> wheel_radius_px\<close>) and a boost that is not negative:
  after \<open>place_ball_near_rim\<close> the ball is at distance
  \<open>wheel_radius_px - ball_radius_px - 1\<close> from the centre, along the radial unit vector
  \<open>(cos, sin)\<close> of the angle; its velocity is the boost times \<open>(- sin, cos)\<close>, the radial
  unit vector turned by a quarter turn, so it is perpendicular to the radius, and its
  magnitude is \<open>ball_boost_speed_m_s * pixels_per_meter\<close>.
\<close>

theorem place_ball_near_rim_valid:
  assumes "ball_radius_px (cfg s) + 1 \<le> wheel_radius_px s"
    and "0 \<le> ball_boost_speed_m_s (cfg s) * pixels_per_meter (cfg s)"
    and "s' = place_ball_near_rim s u"
  shows "distance_to_center s' = wheel_radius_px s - ball_radius_px (cfg s) - 1
         \<and> dx s' = cos (u * tau) * (wheel_radius_px s - ball_radius_px (cfg s) - 1)
         \<and> dy s' = sin (u * tau) * (wheel_radius_px s - ball_radius_px (cfg s) - 1)
         \<and> ball_vx (ball s')
             = - sin (u * tau) * (ball_boost_speed_m_s (cfg s) * pixels_per_meter (cfg s))
         \<and> ball_vy (ball s')
             = cos (u * tau) * (ball_boost_speed_m_s (cfg s) * pixels_per_meter (cfg s))
         \<and> ball_vx (ball s') * dx s' + ball_vy (ball s') * dy s' = 0
         \<and> speed s' = ball_boost_speed_m_s (cfg s) * pixels_per_meter (cfg s)"
proof -
  let ?r = "wheel_radius_px s - ball_radius_px (cfg s) - 1"
  let ?b = "ball_boost_speed_m_s (cfg s) * pixels_per_meter (cfg s)"
  have r: "0 \<le> ?r" using assms(1) by simp
  have x: "dx s' = cos (u * tau) * ?r" and y: "dy s' = sin (u * tau) * ?r"
    by (simp_all add: assms(3) dx_def dy_def place_ball_near_rim_ball place_ball_near_rim_frame)
  have vx: "ball_vx (ball s') = - sin (u * tau) * ?b"
    and vy: "ball_vy (ball s') = cos (u * tau) * ?b"
    by (simp_all add: assms(3) place_ball_near_rim_ball)
  have d: "distance_to_center s' = ?r"
    unfolding distance_to_center_def x y hypot_cos_sin using r by simp
  have p: "ball_vx (ball s') * dx s' + ball_vy (ball s') * dy s' = 0"
    unfolding x y vx vy by (simp add: algebra_simps)
  have sp: "speed s' = ?b"
    unfolding speed_def vx vy hypot_sin_cos using assms(2) by simp
  from d x y vx vy p sp show ?thesis by blast
qed

text \<open>A placement at a quarter turn in the window of the constructor: radius 334, speed 440.\<close>

theorem place_ball_near_rim_valid_witness:
  "distance_to_center (place_ball_near_rim (init Config 0) (1 / 4)) = 334
   \<and> speed (place_ball_near_rim (init Config 0) (1 / 4)) = 440
   \<and> ball_vx (ball (place_ball_near_rim (init Config 0) (1 / 4))) = - 440
   \<and> ball_vy (ball (place_ball_near_rim (init Config 0) (1 / 4))) = 0"
proof -
  have a: "ball_radius_px (cfg (init Config 0)) + 1 \<le> wheel_radius_px (init Config 0)"
    by (simp add: init_Config_fields Config_fields)
  have b: "0 \<le> ball_boost_speed_m_s (cfg (init Config 0)) * pixels_per_meter (cfg (init Config 0))"
    by (simp add: init_Config_fields Config_fields)
  have q: "tau / 4 = pi / 2"
    by (simp add: tau_def)
  show ?thesis
    using place_ball_near_rim_valid [OF a b refl, of "1 / 4"]
    by (simp add: q init_Config_fields Config_fields)
qed

subsection \<open>Speed on a step without contact\<close>

lemma integrate_velocity:
  "ball_vx (ball (integrate s dt))
     = ball_vx (ball s) * max 0 (1 - air_drag_per_second (cfg s) * dt)"
  "ball_vy (ball (integrate s dt))
     = (ball_vy (ball s) + gravity_m_s2 (cfg s) * pixels_per_meter (cfg s) * dt)
         * max 0 (1 - air_drag_per_second (cfg s) * dt)"
  by (simp_all add: integrate_def Let_def)

lemma integrate_speed_bound:
  assumes "0 \<le> dt" and "0 \<le> air_drag_per_second (cfg s)"
    and "0 \<le> gravity_m_s2 (cfg s) * pixels_per_meter (cfg s)"
  shows "speed (integrate s dt)
           \<le> speed s + gravity_m_s2 (cfg s) * pixels_per_meter (cfg s) * dt"
proof -
  let ?k = "max 0 (1 - air_drag_per_second (cfg s) * dt)"
  let ?g = "gravity_m_s2 (cfg s) * pixels_per_meter (cfg s)"
  have k0: "0 \<le> ?k" by simp
  have "0 \<le> air_drag_per_second (cfg s) * dt" using assms(1,2) by simp
  then have k1: "?k \<le> 1" by simp
  have gd: "0 \<le> ?g * dt" using assms(1,3) by simp
  have "speed (integrate s dt) = hypot (ball_vx (ball s)) (ball_vy (ball s) + ?g * dt) * ?k"
    unfolding speed_def integrate_velocity hypot_scale using k0 by simp
  also have "\<dots> \<le> hypot (ball_vx (ball s)) (ball_vy (ball s) + ?g * dt) * 1"
    using k1 by (intro mult_left_mono hypot_nonneg)
  also have "\<dots> \<le> speed s + \<bar>?g * dt\<bar>"
    using hypot_triangle [of "ball_vx (ball s)" "ball_vy (ball s)" "?g * dt"]
    by (simp add: speed_def)
  finally show ?thesis using gd by simp
qed

text \<open>
  C9. On a step with \<open>dt \<ge> 0\<close> that does not take the contact branch (with a drag
  coefficient and a gravity that are not negative), the drag factor is in \<open>[0, 1]\<close>, the
  velocity after \<open>update\<close> is the velocity after gravity and drag, and the speed is at most
  the speed before the step plus \<open>gravity_m_s2 * pixels_per_meter * dt\<close>.
\<close>

theorem no_contact_speed_bound:
  assumes "0 \<le> dt" and "0 \<le> air_drag_per_second (cfg s)"
    and "0 \<le> gravity_m_s2 (cfg s) * pixels_per_meter (cfg s)"
    and "\<not> allowed (integrate s dt) < dist_ball (integrate s dt)"
  shows "0 \<le> max 0 (1 - air_drag_per_second (cfg s) * dt)
         \<and> max 0 (1 - air_drag_per_second (cfg s) * dt) \<le> 1
         \<and> ball_vx (ball (update s dt))
             = ball_vx (ball s) * max 0 (1 - air_drag_per_second (cfg s) * dt)
         \<and> ball_vy (ball (update s dt))
             = (ball_vy (ball s) + gravity_m_s2 (cfg s) * pixels_per_meter (cfg s) * dt)
                 * max 0 (1 - air_drag_per_second (cfg s) * dt)
         \<and> speed (update s dt)
             \<le> speed s + gravity_m_s2 (cfg s) * pixels_per_meter (cfg s) * dt"
proof -
  have "0 \<le> air_drag_per_second (cfg s) * dt" using assms(1,2) by simp
  then have k: "0 \<le> max 0 (1 - air_drag_per_second (cfg s) * dt)"
    "max 0 (1 - air_drag_per_second (cfg s) * dt) \<le> 1" by simp_all
  have b: "ball (update s dt) = ball (integrate s dt)"
    using assms(4) by (rule update_no_contact)
  have sp: "speed (update s dt) = speed (integrate s dt)"
    by (simp add: speed_def b)
  show ?thesis
    using k integrate_speed_bound [OF assms(1,2,3)]
    by (simp add: b sp integrate_velocity)
qed

lemma init_Config_0_step:
  "ball (integrate (init Config 0) (1 / 100))
     = \<lparr> ball_x = 744, ball_y = 414.4955, ball_vx = 0, ball_vy = 449.55 \<rparr>"
  "cfg (integrate (init Config 0) (1 / 100)) = Config"
  "center_x (integrate (init Config 0) (1 / 100)) = 410"
  "center_y (integrate (init Config 0) (1 / 100)) = 410"
  "wheel_radius_px (integrate (init Config 0) (1 / 100)) = 345"
  by (simp_all add: integrate_def Let_def init_Config_0_ball init_Config_fields Config_fields)

lemma init_Config_0_no_contact:
  "\<not> allowed (integrate (init Config 0) (1 / 100)) < dist_ball (integrate (init Config 0) (1 / 100))"
proof -
  let ?s1 = "integrate (init Config 0) (1 / 100)"
  have x: "dx ?s1 = 334" and y: "dy ?s1 = 4.4955"
    by (simp_all add: dx_def dy_def init_Config_0_step)
  have "hypot (dx ?s1) (dy ?s1) \<le> 335"
    unfolding x y by (rule hypot_le) (simp_all add: power2_eq_square)
  moreover have "hypot (dx ?s1) (dy ?s1) \<noteq> 0"
    by (simp add: x y hypot_eq_0_iff)
  moreover have "allowed ?s1 = 335"
    by (simp add: allowed_def init_Config_0_step Config_fields)
  ultimately show ?thesis
    by (simp add: dist_cases)
qed

text \<open>The first step of 10 ms after the constructor: from 440 to 449.55, at most 450.\<close>

theorem no_contact_speed_bound_witness:
  "speed (init Config 0) = 440
   \<and> speed (update (init Config 0) (1 / 100)) = 449.55
   \<and> speed (update (init Config 0) (1 / 100)) \<le> speed (init Config 0) + 5 * 200 * (1 / 100)"
proof -
  have c: "cfg (init Config 0) = Config" by (simp add: init_Config_fields)
  have a: "(0::real) \<le> 1 / 100" by simp
  have d: "0 \<le> air_drag_per_second (cfg (init Config 0))"
    and g: "0 \<le> gravity_m_s2 (cfg (init Config 0)) * pixels_per_meter (cfg (init Config 0))"
    by (simp_all add: c Config_fields)
  note t = no_contact_speed_bound [OF a d g init_Config_0_no_contact]
  have s0: "speed (init Config 0) = 440"
    by (simp add: speed_def init_Config_0_ball hypot_zero_left)
  from t have vx: "ball_vx (ball (update (init Config 0) (1 / 100))) = 0"
    by (simp add: init_Config_0_ball)
  from t have vy: "ball_vy (ball (update (init Config 0) (1 / 100))) = 449.55"
    by (simp add: init_Config_0_ball c Config_fields)
  have s1: "speed (update (init Config 0) (1 / 100)) = 449.55"
    by (simp add: speed_def vx vy hypot_zero_left)
  from t have "speed (update (init Config 0) (1 / 100))
      \<le> speed (init Config 0) + gravity_m_s2 (cfg (init Config 0))
            * pixels_per_meter (cfg (init Config 0)) * (1 / 100)"
    by blast
  then show ?thesis
    using s0 s1 by (simp add: c Config_fields)
qed

subsection \<open>Containment\<close>



lemma distance_after_contact:
  "distance_to_center (resolve_contact s dt)
     = (if hypot (dx s) (dy s) = 0 then 0 else \<bar>allowed s\<bar>)"
proof -
  let ?k = "allowed s / dist_ball s"
  have d0: "dist_ball s \<noteq> 0" using dist_pos [of s] by simp
  have x: "dx (resolve_contact s dt) = dx s * ?k"
  proof -
    have "dx (resolve_contact s dt) = dx s - dx s / dist_ball s * (dist_ball s - allowed s)"
      by (simp add: dx_def resolve_contact_def nx_def penetration_def)
    also have "\<dots> = dx s * ?k"
      using d0 by (simp add: field_simps)
    finally show ?thesis .
  qed
  have y: "dy (resolve_contact s dt) = dy s * ?k"
  proof -
    have "dy (resolve_contact s dt) = dy s - dy s / dist_ball s * (dist_ball s - allowed s)"
      by (simp add: dy_def resolve_contact_def ny_def penetration_def)
    also have "\<dots> = dy s * ?k"
      using d0 by (simp add: field_simps)
    finally show ?thesis .
  qed
  have h: "distance_to_center (resolve_contact s dt) = hypot (dx s) (dy s) * \<bar>?k\<bar>"
    unfolding distance_to_center_def x y by (rule hypot_scale)
  show ?thesis
  proof (cases "hypot (dx s) (dy s) = 0")
    case True
    then show ?thesis by (simp add: h)
  next
    case False
    then have "dist_ball s = hypot (dx s) (dy s)" by (simp add: dist_cases)
    moreover have "0 < hypot (dx s) (dy s)"
      using False hypot_nonneg [of "dx s" "dy s"] by linarith
    ultimately show ?thesis using False by (simp add: h abs_mult)
  qed
qed

lemma distance_update:
  "distance_to_center (update s dt)
     = (if allowed (integrate s dt) < dist_ball (integrate s dt)
        then distance_to_center (resolve_contact (integrate s dt) dt)
        else distance_to_center (integrate s dt))"
  by (simp add: update_def Let_def distance_to_center_def dx_def dy_def)

lemma integrate_allowed: "allowed (integrate s dt) = allowed s"
  by (simp add: allowed_def integrate_frame)

lemma update_within_rim:
  assumes "0 \<le> allowed s"
  shows "distance_to_center (update s dt) \<le> allowed s"
proof (cases "allowed (integrate s dt) < dist_ball (integrate s dt)")
  case True
  then show ?thesis
    using assms by (simp add: distance_update distance_after_contact integrate_allowed)
next
  case False
  let ?s1 = "integrate s dt"
  have "hypot (dx ?s1) (dy ?s1) \<le> allowed ?s1"
  proof (cases "hypot (dx ?s1) (dy ?s1) = 0")
    case True
    then show ?thesis using assms by (simp add: integrate_allowed)
  next
    case nz: False
    then have "dist_ball ?s1 = hypot (dx ?s1) (dy ?s1)" by (simp add: dist_cases)
    with False show ?thesis by simp
  qed
  moreover have "distance_to_center (update s dt) = hypot (dx ?s1) (dy ?s1)"
    unfolding distance_update using False by (simp add: distance_to_center_def)
  ultimately show ?thesis
    by (simp add: integrate_allowed)
qed

lemma run_snoc: "run s (dts @ [dt]) = update (run s dts) dt"
  by (induction dts arbitrary: s) simp_all

lemma run_allowed: "allowed (run s dts) = allowed s"
  by (induction dts arbitrary: s) (simp_all add: update_allowed)

text \<open>
  C1. From a state whose allowed radius \<open>wheel_radius_px - ball_radius_px\<close> is not
  negative, after each call of a sequence of \<open>update\<close> calls the distance of the ball
  from the centre of the wheel is at most the allowed radius. In exact arithmetic the
  tolerance is zero and the bound holds for every \<open>dt\<close>, so for each \<open>dt\<close> in
  \<open>[0, 0.032]\<close>. It is the position correction that enforces it: on a step that resolves
  a contact the ball ends on the circle of the allowed radius (on the centre, had it been
  there).
\<close>

theorem containment:
  assumes "0 \<le> allowed s" and "k < length dts"
  shows "distance_to_center (run s (take (Suc k) dts))
           \<le> wheel_radius_px s - ball_radius_px (cfg s)
         \<and> (allowed (integrate s dt) < dist_ball (integrate s dt)
              \<longrightarrow> distance_to_center (update s dt)
                    = (if hypot (dx (integrate s dt)) (dy (integrate s dt)) = 0 then 0
                       else wheel_radius_px s - ball_radius_px (cfg s)))"
proof -
  from assms(2) have "take (Suc k) dts \<noteq> []"
    by (cases dts) simp_all
  then obtain ds d where e: "take (Suc k) dts = ds @ [d]"
    by (cases "take (Suc k) dts" rule: rev_cases) simp_all
  have "0 \<le> allowed (run s ds)"
    using assms(1) by (simp add: run_allowed)
  then have "distance_to_center (update (run s ds) d) \<le> allowed (run s ds)"
    by (rule update_within_rim)
  then have "distance_to_center (run s (take (Suc k) dts)) \<le> allowed s"
    by (simp add: e run_snoc run_allowed)
  then have a: "distance_to_center (run s (take (Suc k) dts))
                  \<le> wheel_radius_px s - ball_radius_px (cfg s)"
    by (simp add: allowed_def)
  have b: "distance_to_center (update s dt)
             = (if hypot (dx (integrate s dt)) (dy (integrate s dt)) = 0 then 0
                else wheel_radius_px s - ball_radius_px (cfg s))"
    if c: "allowed (integrate s dt) < dist_ball (integrate s dt)"
  proof -
    have "\<bar>allowed s\<bar> = wheel_radius_px s - ball_radius_px (cfg s)"
      using assms(1) by (simp add: allowed_def)
    then show ?thesis
      unfolding distance_update using c
      by (simp add: distance_after_contact integrate_allowed)
  qed
  from a b show ?thesis by blast
qed

text \<open>Three steps from \<open>rim_bottom\<close>, the first of which resolves a contact.\<close>

theorem containment_witness:
  "distance_to_center (run rim_bottom (take (Suc 2) [1 / 100, 0, 32 / 1000])) \<le> 335
   \<and> distance_to_center (update rim_bottom (1 / 100)) = 335"
proof -
  have a: "0 \<le> allowed rim_bottom"
    by (simp add: allowed_def rim_bottom_def init_Config_fields Config_fields)
  have k: "2 < length [1 / 100, 0, 32 / 1000 :: real]" by simp
  have c: "allowed (integrate rim_bottom (1 / 100)) < dist_ball (integrate rim_bottom (1 / 100))"
    by (simp add: rim_bottom_contact)
  have h: "hypot (dx (integrate rim_bottom (1 / 100))) (dy (integrate rim_bottom (1 / 100))) \<noteq> 0"
    by (simp add: rim_bottom_contact hypot_zero_left)
  have r: "wheel_radius_px rim_bottom - ball_radius_px (cfg rim_bottom) = 335"
    by (simp add: rim_bottom_def init_Config_fields Config_fields)
  show ?thesis
    using containment [OF a k, of "1 / 100"] c h r by simp
qed

subsection \<open>A step of zero length\<close>








end
